theory Spec2Isabelle
  imports Main "HOL-Library.Word" "HOL-Library.Sublist"
begin

section \<open>The btrfs graph driver: errors, results and external calls\<close>

text \<open>
  The driver (package btrfs, in src/daemon/exec_linux_test.go from line 91 on) talks to the
  kernel and the filesystem only through library and system calls. The model keeps every
  such call: it is appended to a trace of operations, and its answer is read from an
  environment \<open>env\<close>, indexed by the number of operations issued so far, so that the same
  call may be answered differently at different moments. Nothing is assumed about how the
  operating system answers.
\<close>

type_synonym errno = nat

definition ENOENT :: errno where
  "ENOENT = 2"

definition EPERM :: errno where
  "EPERM = 1"

text \<open>
  Go error values. \<open>OSError\<close> is an error of the os, filepath or unix packages carrying an
  errno; \<open>LibError\<close> is an error of another library; the remaining constructors are the
  errors the driver builds itself (fmt.Errorf and errors.Wrap), one per message.
\<close>

datatype error =
    OSError errno
  | LibError string
  | NumErrorSyntax string
  | NumErrorRange string
  | CantOpenDir
  | FailedCreateSubvolume errno
  | FailedCreateSnapshot errno
  | ErrorWalkingSubvolumes error
  | FailedTestSubvolume string error
  | FailedDestroyChild string string error
  | RecursiveWalkFailed string error
  | FailedDeleteQgroup "64 word" string errno
  | FailedLookupQgroupFor string error
  | FailedDestroySnapshot string string errno
  | FailedEnableQuota errno
  | FailedRescanQuota errno
  | FailedLimitQgroup errno
  | FailedSearchQgroup string errno
  | InvalidSearchHeaderType string nat
  | FailedLookupQgroup errno
  | InvalidQgroupId
  | NotADirectory string
  | UnknownOption string
  | InvalidStorageSize
  | StorageSizeTooSmall "64 word"
  | SubvolRmHint error

text \<open>A Go run-time panic: an array index out of range (index, length) or a nil dereference.\<close>

datatype panic = IndexOutOfRange nat nat | NilDereference

datatype 'a result = Ok 'a | Err error | Panic panic

text \<open>os.IsNotExist: true for an os error whose errno is ENOENT, false for every error
  built with fmt.Errorf or errors.Wrap (it does not unwrap those).\<close>

definition os_IsNotExist :: "error \<Rightarrow> bool" where
  "os_IsNotExist err = (case err of OSError e \<Rightarrow> e = ENOENT | _ \<Rightarrow> False)"

text \<open>strings.Contains on byte strings.\<close>

fun strings_Contains :: "string \<Rightarrow> string \<Rightarrow> bool" where
  "strings_Contains [] substr = (substr = [])"
| "strings_Contains (c # s) substr =
     (take (length substr) (c # s) = substr \<or> strings_Contains s substr)"

text \<open>The control operations (ioctl requests) with the directory whose descriptor they are
  issued on and the fields of the request structure the driver fills in.\<close>

datatype ioctl =
    SUBVOL_CREATE string string
  | SNAP_CREATE_V2 string string string
  | SNAP_DESTROY string string
  | QGROUP_CREATE string "64 word"
  | QUOTA_CTL_ENABLE string
  | QUOTA_RESCAN_WAIT string
  | QGROUP_LIMIT string "64 word"
  | TREE_SEARCH string
  | INO_LOOKUP string

datatype op =
    OsStat string
  | OsRemove string
  | OsReadFile string
  | OsWriteFile string string nat
  | OsChown string nat nat
  | MkdirAllAndChown string nat nat nat
  | Relabel string string bool
  | EnsureRemoveAll string
  | OpenDir string
  | CloseDir string
  | UnixLstat string
  | FilepathWalkDir string
  | Ioctl ioctl
  | LogErrorf error

datatype DirEntry = DirEntry (Name: string) (IsDir: bool)

text \<open>
  What the environment answers during one call of subvolDelete: whether openDir succeeds,
  the entries filepath.WalkDir hands to the callback (path, entry, error), for each entry
  the answer of unix.Lstat (used by isSubvolume) and the answers for the nested subvolDelete
  the callback may start, the answers for subvolLookupQgroup (openDir, errno, tree identifier) and
  the errno of the qgroup and destroy operations. The walk of a filesystem is finite, so
  this is a finite tree.
\<close>

datatype wevent =
  WEvent (we_path: string) (we_entry: "DirEntry option") (we_err: "error option")
    (we_lstat: "error + 64 word") (we_child: dscript)
and dscript =
  DScript (ds_opendir: bool) (ds_walk: "wevent list") (ds_lookup: "bool \<times> errno \<times> 64 word")
    (ds_qgroup_errno: errno) (ds_destroy_errno: errno)

text \<open>
  The environment. Its first part is what the source takes from libraries and kernel
  headers that are not part of the repository: path.Join and path.Dir, strings.ToLower,
  units.RAMInBytes (its int64 result read as uint64), the text of an error
  (err.Error()), userns.RunningInUserNS, os.Getuid and os.Getegid, the length of the name
  array of struct btrfs_ioctl_vol_args, BTRFS_SUBVOL_NAME_MAX, BTRFS_FIRST_FREE_OBJECTID
  and BTRFS_QGROUP_STATUS_KEY. Its second part is the answers of the operating system,
  each indexed by the moment (the length of the trace) at which the call is issued.
  os.Stat answers an error or whether the path is a directory (the only field read).
\<close>

record env =
  path_Join :: "string \<Rightarrow> string \<Rightarrow> string"
  path_Dir :: "string \<Rightarrow> string"
  strings_ToLower :: "string \<Rightarrow> string"
  units_RAMInBytes :: "string \<Rightarrow> error + 64 word"
  error_text :: "error \<Rightarrow> string"
  RunningInUserNS :: bool
  os_Getuid :: nat
  os_Getegid :: nat
  vol_args_name_len :: nat
  SUBVOL_NAME_MAX :: nat
  FIRST_FREE_OBJECTID :: "64 word"
  QGROUP_STATUS_KEY :: nat
  stat_r :: "nat \<Rightarrow> string \<Rightarrow> error + bool"
  remove_r :: "nat \<Rightarrow> string \<Rightarrow> error option"
  readfile_r :: "nat \<Rightarrow> string \<Rightarrow> error + string"
  writefile_r :: "nat \<Rightarrow> string \<Rightarrow> error option"
  mkdirall_r :: "nat \<Rightarrow> string \<Rightarrow> error option"
  chown_r :: "nat \<Rightarrow> string \<Rightarrow> error option"
  relabel_r :: "nat \<Rightarrow> string \<Rightarrow> error option"
  removeall_r :: "nat \<Rightarrow> string \<Rightarrow> error option"
  opendir_r :: "nat \<Rightarrow> string \<Rightarrow> bool"
  ioctl_r :: "nat \<Rightarrow> ioctl \<Rightarrow> errno"
  search_type_r :: "nat \<Rightarrow> string \<Rightarrow> nat"
  delete_r :: "nat \<Rightarrow> dscript"

section \<open>The driver state\<close>

record btrfsOptions =
  minSpace :: "64 word"
  size_opt :: "64 word"

text \<open>The Driver struct. The identity mapping is read only through RootPair(), so it is
  kept as that pair (uid, gid); \<open>once\<close> is the state of the sync.Once (True when done).\<close>

record Driver =
  home :: string
  idMap :: "nat \<times> nat"
  options :: btrfsOptions
  quotaEnabled :: bool
  once :: bool

text \<open>The zero value \<open>&Driver{}\<close>.\<close>

definition Driver_zero :: Driver where
  "Driver_zero = \<lparr>home = [], idMap = (0, 0), options = \<lparr>minSpace = 0, size_opt = 0\<rparr>,
     quotaEnabled = False, once = False\<rparr>"

record CreateOpts =
  MountLabel :: string
  StorageOpt :: "(string \<times> string) list"

section \<open>Control-operation bindings\<close>

definition openDir :: "env \<Rightarrow> string \<Rightarrow> op list \<Rightarrow> bool \<times> op list" where
  "openDir env p tr = (opendir_r env (length tr) p, tr @ [OpenDir p])"

text \<open>
  The copy loop of subvolCreate and subvolDelete (lines 297-299 and 403-405):
  \<^verbatim>\<open>for i, c := range []byte(name) { args.name[i] = C.char(c) }\<close>.
  \<open>args.name\<close> is a Go array, so an index beyond its length panics.
\<close>

fun copy_name :: "string \<Rightarrow> nat \<Rightarrow> string \<Rightarrow> string result" where
  "copy_name [] i buf = Ok buf"
| "copy_name (c # cs) i buf =
     (if i < length buf then copy_name cs (Suc i) (buf[i := c])
      else Panic (IndexOutOfRange i (length buf)))"

text \<open>The zero-initialised name array of \<open>var args C.struct_btrfs_ioctl_vol_args\<close>.\<close>

definition zeroed :: "nat \<Rightarrow> string" where
  "zeroed n = replicate n (CHR 0x00)"

text \<open>C.CString(name), read as a C string: the bytes before the first NUL.\<close>

definition C_CString :: "string \<Rightarrow> string" where
  "C_CString s = takeWhile (\<lambda>c. c \<noteq> CHR 0x00) s"

text \<open>
  set_name_btrfs_ioctl_vol_args_v2 (lines 109-111):
  \<^verbatim>\<open>snprintf(btrfs_struct->name, BTRFS_SUBVOL_NAME_MAX, "%s", value)\<close> into the zeroed
  array of BTRFS_SUBVOL_NAME_MAX + 1 bytes: at most BTRFS_SUBVOL_NAME_MAX - 1 bytes of the
  value, then NUL.
\<close>

definition set_name_btrfs_ioctl_vol_args_v2 :: "nat \<Rightarrow> string \<Rightarrow> string" where
  "set_name_btrfs_ioctl_vol_args_v2 name_max value =
     (let written = take (name_max - 1) value
      in written @ zeroed (name_max + 1 - length written))"

definition subvolCreate :: "env \<Rightarrow> string \<Rightarrow> string \<Rightarrow> op list \<Rightarrow> unit result \<times> op list" where
  "subvolCreate env path name tr =
     (let (ok, tr1) = openDir env path tr in
      if \<not> ok then (Err CantOpenDir, tr1)
      else case copy_name name 0 (zeroed (vol_args_name_len env)) of
        Panic p \<Rightarrow> (Panic p, tr1 @ [CloseDir path])
      | Err e \<Rightarrow> (Err e, tr1 @ [CloseDir path])
      | Ok args_name \<Rightarrow>
          let errno = ioctl_r env (length tr1) (SUBVOL_CREATE path args_name);
              tr2 = tr1 @ [Ioctl (SUBVOL_CREATE path args_name), CloseDir path]
          in if errno \<noteq> 0 then (Err (FailedCreateSubvolume errno), tr2)
             else (Ok (), tr2))"

definition subvolSnapshot ::
  "env \<Rightarrow> string \<Rightarrow> string \<Rightarrow> string \<Rightarrow> op list \<Rightarrow> unit result \<times> op list" where
  "subvolSnapshot env src dest name tr =
     (let (ok, tr1) = openDir env src tr in
      if \<not> ok then (Err CantOpenDir, tr1)
      else let (ok', tr2) = openDir env dest tr1 in
      if \<not> ok' then (Err CantOpenDir, tr2 @ [CloseDir src])
      else
        let args_name = set_name_btrfs_ioctl_vol_args_v2 (SUBVOL_NAME_MAX env) (C_CString name);
            errno = ioctl_r env (length tr2) (SNAP_CREATE_V2 dest src args_name);
            tr3 = tr2 @ [Ioctl (SNAP_CREATE_V2 dest src args_name), CloseDir dest, CloseDir src]
        in if errno \<noteq> 0 then (Err (FailedCreateSnapshot errno), tr3)
           else (Ok (), tr3))"

definition isSubvolume :: "env \<Rightarrow> error + 64 word \<Rightarrow> string \<Rightarrow> bool result \<times> op list" where
  "isSubvolume env lstat p =
     (case lstat of
        Inl err \<Rightarrow> (Err err, [UnixLstat p])
      | Inr ino \<Rightarrow> (Ok (ino = FIRST_FREE_OBJECTID env), [UnixLstat p]))"

definition subvolLookupQgroup ::
  "bool \<times> errno \<times> 64 word \<Rightarrow> string \<Rightarrow> 64 word result \<times> op list" where
  "subvolLookupQgroup lk path =
     (case lk of (ok, errno, treeid) \<Rightarrow>
        if \<not> ok then (Err CantOpenDir, [OpenDir path])
        else if errno \<noteq> 0
          then (Err (FailedLookupQgroup errno), [OpenDir path, Ioctl (INO_LOOKUP path), CloseDir path])
        else if treeid = 0
          then (Err InvalidQgroupId, [OpenDir path, Ioctl (INO_LOOKUP path), CloseDir path])
        else (Ok treeid, [OpenDir path, Ioctl (INO_LOOKUP path), CloseDir path]))"

text \<open>
  The best-effort removal of the quota group in subvolDelete (lines 386-399): every
  failure is logged and the delete goes on.
\<close>

definition delete_qgroup :: "bool \<times> errno \<times> 64 word \<Rightarrow> errno \<Rightarrow> string \<Rightarrow> string \<Rightarrow> op list" where
  "delete_qgroup lk qerrno dirpath fullPath =
     (case subvolLookupQgroup lk fullPath of
        (Ok qgroupid, ops) \<Rightarrow>
          ops @ [Ioctl (QGROUP_CREATE dirpath qgroupid)] @
            (if qerrno \<noteq> 0 then [LogErrorf (FailedDeleteQgroup qgroupid fullPath qerrno)] else [])
      | (Err err, ops) \<Rightarrow> ops @ [LogErrorf (FailedLookupQgroupFor fullPath err)]
      | (Panic p, ops) \<Rightarrow> ops)"

text \<open>
  subvolDelete (lines 347-412), the loop of filepath.WalkDir over the entries (it stops at
  the first error the callback returns and returns it) and the callback walkSubVolumes
  (lines 358-381). Each returns its outcome and the operations it issued.
\<close>

fun subvolDelete :: "env \<Rightarrow> dscript \<Rightarrow> string \<Rightarrow> string \<Rightarrow> bool \<Rightarrow> unit result \<times> op list"
and WalkDir :: "env \<Rightarrow> wevent list \<Rightarrow> string \<Rightarrow> string \<Rightarrow> bool \<Rightarrow> unit result \<times> op list"
and walkSubVolumes :: "env \<Rightarrow> wevent \<Rightarrow> string \<Rightarrow> string \<Rightarrow> bool \<Rightarrow> unit result \<times> op list"
where
  "subvolDelete env (DScript ok evs lk qerrno derrno) dirpath name quotaEnabled' =
     (if \<not> ok then (Err CantOpenDir, [OpenDir dirpath])
      else
        let fullPath = path_Join env dirpath name in
        case WalkDir env evs dirpath fullPath quotaEnabled' of
          (Panic p, ops) \<Rightarrow>
            (Panic p, [OpenDir dirpath, FilepathWalkDir fullPath] @ ops @ [CloseDir dirpath])
        | (Err err, ops) \<Rightarrow>
            (Err (RecursiveWalkFailed dirpath err),
             [OpenDir dirpath, FilepathWalkDir fullPath] @ ops @ [CloseDir dirpath])
        | (Ok _, ops) \<Rightarrow>
            let qops = (if quotaEnabled' then delete_qgroup lk qerrno dirpath fullPath else []);
                ops1 = [OpenDir dirpath, FilepathWalkDir fullPath] @ ops @ qops
            in case copy_name name 0 (zeroed (vol_args_name_len env)) of
                 Panic p \<Rightarrow> (Panic p, ops1 @ [CloseDir dirpath])
               | Err e \<Rightarrow> (Err e, ops1 @ [CloseDir dirpath])
               | Ok args_name \<Rightarrow>
                   if derrno \<noteq> 0
                   then (Err (FailedDestroySnapshot dirpath name derrno),
                         ops1 @ [Ioctl (SNAP_DESTROY dirpath args_name), CloseDir dirpath])
                   else (Ok (), ops1 @ [Ioctl (SNAP_DESTROY dirpath args_name), CloseDir dirpath]))"
| "WalkDir env [] dirpath fullPath quotaEnabled' = (Ok (), [])"
| "WalkDir env (ev # evs) dirpath fullPath quotaEnabled' =
     (case walkSubVolumes env ev dirpath fullPath quotaEnabled' of
        (Ok _, ops) \<Rightarrow>
          (case WalkDir env evs dirpath fullPath quotaEnabled' of (r, ops') \<Rightarrow> (r, ops @ ops'))
      | (r, ops) \<Rightarrow> (r, ops))"
| "walkSubVolumes env (WEvent p f err lstat child) dirpath fullPath quotaEnabled' =
     (case err of
        Some e \<Rightarrow>
          if os_IsNotExist e \<and> p \<noteq> fullPath then (Ok (), [])
          else (Err (ErrorWalkingSubvolumes e), [])
      | None \<Rightarrow>
          (case f of
             None \<Rightarrow> (Panic NilDereference, [])
           | Some d \<Rightarrow>
               if IsDir d \<and> p \<noteq> fullPath then
                 (case isSubvolume env lstat p of
                    (Err e, ops) \<Rightarrow> (Err (FailedTestSubvolume p e), ops)
                  | (Panic q, ops) \<Rightarrow> (Panic q, ops)
                  | (Ok sv, ops) \<Rightarrow>
                      if sv then
                        (case subvolDelete env child (path_Dir env p) (Name d) quotaEnabled' of
                           (Err e, ops') \<Rightarrow> (Err (FailedDestroyChild p dirpath e), ops @ ops')
                         | (r, ops') \<Rightarrow> (r, ops @ ops'))
                      else (Ok (), ops))
               else (Ok (), [])))"

section \<open>Quota subsystem\<close>

definition qgroupStatus :: "env \<Rightarrow> string \<Rightarrow> op list \<Rightarrow> unit result \<times> op list" where
  "qgroupStatus env path tr =
     (let (ok, tr1) = openDir env path tr in
      if \<not> ok then (Err CantOpenDir, tr1)
      else
        let errno = ioctl_r env (length tr1) (TREE_SEARCH path);
            sh_type = search_type_r env (length tr1) path;
            tr2 = tr1 @ [Ioctl (TREE_SEARCH path), CloseDir path]
        in if errno \<noteq> 0 then (Err (FailedSearchQgroup path errno), tr2)
           else if sh_type \<noteq> QGROUP_STATUS_KEY env then (Err (InvalidSearchHeaderType path sh_type), tr2)
           else (Ok (), tr2))"

text \<open>updateQuotaStatus (lines 414-425): the body runs under \<open>d.once.Do\<close>.\<close>

definition updateQuotaStatus :: "env \<Rightarrow> Driver \<Rightarrow> op list \<Rightarrow> Driver \<times> op list" where
  "updateQuotaStatus env d tr =
     (if once d then (d, tr)
      else
        let d1 = d\<lparr>once := True\<rparr> in
        if \<not> quotaEnabled d1 then
          (case qgroupStatus env (home d1) tr of
             (Ok _, tr1) \<Rightarrow> (d1\<lparr>quotaEnabled := True\<rparr>, tr1)
           | (_, tr1) \<Rightarrow> (d1, tr1))
        else (d1, tr))"

definition enableQuota :: "env \<Rightarrow> Driver \<Rightarrow> op list \<Rightarrow> unit result \<times> Driver \<times> op list" where
  "enableQuota env d tr =
     (let (d1, tr1) = updateQuotaStatus env d tr in
      if quotaEnabled d1 then (Ok (), d1, tr1)
      else
        let (ok, tr2) = openDir env (home d1) tr1 in
        if \<not> ok then (Err CantOpenDir, d1, tr2)
        else
          let errno = ioctl_r env (length tr2) (QUOTA_CTL_ENABLE (home d1));
              tr3 = tr2 @ [Ioctl (QUOTA_CTL_ENABLE (home d1)), CloseDir (home d1)]
          in if errno \<noteq> 0 then (Err (FailedEnableQuota errno), d1, tr3)
             else (Ok (), d1\<lparr>quotaEnabled := True\<rparr>, tr3))"

definition subvolRescanQuota :: "env \<Rightarrow> Driver \<Rightarrow> op list \<Rightarrow> unit result \<times> Driver \<times> op list" where
  "subvolRescanQuota env d tr =
     (let (d1, tr1) = updateQuotaStatus env d tr in
      if \<not> quotaEnabled d1 then (Ok (), d1, tr1)
      else
        let (ok, tr2) = openDir env (home d1) tr1 in
        if \<not> ok then (Err CantOpenDir, d1, tr2)
        else
          let errno = ioctl_r env (length tr2) (QUOTA_RESCAN_WAIT (home d1));
              tr3 = tr2 @ [Ioctl (QUOTA_RESCAN_WAIT (home d1)), CloseDir (home d1)]
          in if errno \<noteq> 0 then (Err (FailedRescanQuota errno), d1, tr3)
             else (Ok (), d1, tr3))"

definition subvolLimitQgroup :: "env \<Rightarrow> string \<Rightarrow> 64 word \<Rightarrow> op list \<Rightarrow> unit result \<times> op list" where
  "subvolLimitQgroup env path sz tr =
     (let (ok, tr1) = openDir env path tr in
      if \<not> ok then (Err CantOpenDir, tr1)
      else
        let errno = ioctl_r env (length tr1) (QGROUP_LIMIT path sz);
            tr2 = tr1 @ [Ioctl (QGROUP_LIMIT path sz), CloseDir path]
        in if errno \<noteq> 0 then (Err (FailedLimitQgroup errno), tr2)
           else (Ok (), tr2))"

section \<open>Driver facade\<close>

definition subvolumesDir :: "env \<Rightarrow> Driver \<Rightarrow> string" where
  "subvolumesDir env d = path_Join env (home d) ''subvolumes''"

definition subvolumesDirID :: "env \<Rightarrow> Driver \<Rightarrow> string \<Rightarrow> string" where
  "subvolumesDirID env d id' = path_Join env (subvolumesDir env d) id'"

definition quotasDir :: "env \<Rightarrow> Driver \<Rightarrow> string" where
  "quotasDir env d = path_Join env (home d) ''quotas''"

definition quotasDirID :: "env \<Rightarrow> Driver \<Rightarrow> string \<Rightarrow> string" where
  "quotasDirID env d id' = path_Join env (quotasDir env d) id'"

text \<open>The end of Remove (lines 702-705): the fallback cleanup, then the quota rescan,
  whose outcome is what Remove returns.\<close>

definition Remove_cleanup :: "env \<Rightarrow> string \<Rightarrow> Driver \<Rightarrow> op list \<Rightarrow> unit result \<times> Driver \<times> op list" where
  "Remove_cleanup env dir d tr =
     (case removeall_r env (length tr) dir of
        Some err \<Rightarrow> (Err err, d, tr @ [EnsureRemoveAll dir])
      | None \<Rightarrow> subvolRescanQuota env d (tr @ [EnsureRemoveAll dir]))"

text \<open>The middle of Remove (lines 685-701): the status probe, then the recursive delete.
  An error of the delete aborts Remove when quota is enabled; otherwise it is dropped and
  the fallback cleanup runs.\<close>

definition Remove_subvolume ::
  "env \<Rightarrow> string \<Rightarrow> Driver \<Rightarrow> op list \<Rightarrow> unit result \<times> Driver \<times> op list" where
  "Remove_subvolume env id' d tr =
     (let dir = subvolumesDirID env d id';
          (d1, tr4) = updateQuotaStatus env d tr;
          (r, ops) = subvolDelete env (delete_r env (length tr4)) (subvolumesDir env d1) id'
                       (quotaEnabled d1);
          tr5 = tr4 @ ops
      in case r of
        Panic p \<Rightarrow> (Panic p, d1, tr5)
      | Err err \<Rightarrow>
          if quotaEnabled d1 then
            (if RunningInUserNS env
                \<and> strings_Contains (error_text env err) ''operation not permitted''
             then (Err (SubvolRmHint err), d1, tr5)
             else (Err err, d1, tr5))
          else Remove_cleanup env dir d1 tr5
      | Ok _ \<Rightarrow> Remove_cleanup env dir d1 tr5)"

text \<open>Remove (lines 671-706): the two stats and the removal of the quota record (lines
  672-683), then the blocks above.\<close>

definition Remove :: "env \<Rightarrow> string \<Rightarrow> Driver \<Rightarrow> op list \<Rightarrow> unit result \<times> Driver \<times> op list" where
  "Remove env id' d tr =
     (let dir = subvolumesDirID env d id';
          tr1 = tr @ [OsStat dir]
      in case stat_r env (length tr) dir of
        Inl err \<Rightarrow> (Err err, d, tr1)
      | Inr _ \<Rightarrow>
          let quotasDir' = quotasDirID env d id';
              tr2 = tr1 @ [OsStat quotasDir'];
              (failed, tr3) =
                (case stat_r env (length tr1) quotasDir' of
                   Inr _ \<Rightarrow> (remove_r env (length tr2) quotasDir', tr2 @ [OsRemove quotasDir'])
                 | Inl err \<Rightarrow> (if \<not> os_IsNotExist err then Some err else None, tr2))
          in case failed of
            Some err \<Rightarrow> (Err err, d, tr3)
          | None \<Rightarrow> Remove_subvolume env id' d tr3)"

text \<open>
  strconv.ParseUint(s, 10, 64): the loop over the bytes of \<open>s\<close> with the accumulator
  \<open>n\<close> of type uint64; \<open>cutoff\<close> is maxUint64/10 + 1. A byte that is not a decimal digit
  is a syntax error, an overflow a range error.
\<close>

definition cutoff10 :: "64 word" where
  "cutoff10 = 1844674407370955162"

fun ParseUint_loop :: "string \<Rightarrow> string \<Rightarrow> 64 word \<Rightarrow> error + 64 word" where
  "ParseUint_loop s0 [] n = Inr n"
| "ParseUint_loop s0 (c # cs) n =
     (if 48 \<le> (of_char c :: nat) \<and> (of_char c :: nat) \<le> 57 then
        (if cutoff10 \<le> n then Inl (NumErrorRange s0)
         else
           let n1 = n * 10 + word_of_nat (of_char c - 48)
           in if n1 < n * 10 then Inl (NumErrorRange s0)
              else ParseUint_loop s0 cs n1)
      else Inl (NumErrorSyntax s0))"

definition ParseUint :: "string \<Rightarrow> error + 64 word" where
  "ParseUint s = (if s = [] then Inl (NumErrorSyntax s) else ParseUint_loop s s 0)"

text \<open>fmt.Sprint of a uint64: its decimal digits.\<close>

fun decimal :: "nat \<Rightarrow> string" where
  "decimal n =
     (if n < 10 then [char_of (48 + n)]
      else decimal (n div 10) @ [char_of (48 + n mod 10)])"

declare decimal.simps [simp del]

definition fmt_Sprint :: "64 word \<Rightarrow> string" where
  "fmt_Sprint w = decimal (unat w)"

text \<open>
  parseStorageOpt (lines 637-654). The Go map is given as the list of its entries in the
  order the \<open>range\<close> loop happens to visit them; \<open>driver\<close> is the Driver the caller passes
  to receive \<open>options.size\<close>.
\<close>

fun parseStorageOpt :: "env \<Rightarrow> (string \<times> string) list \<Rightarrow> Driver \<Rightarrow> error option \<times> Driver" where
  "parseStorageOpt env [] driver = (None, driver)"
| "parseStorageOpt env ((key, val) # rest) driver =
     (if strings_ToLower env key = ''size'' then
        (case units_RAMInBytes env val of
           Inl err \<Rightarrow> (Some err, driver)
         | Inr sz \<Rightarrow> parseStorageOpt env rest (driver\<lparr>options := (options driver)\<lparr>size_opt := sz\<rparr>\<rparr>))
      else (Some (UnknownOption (strings_ToLower env key)), driver))"

text \<open>setStorageSize (lines 657-668).\<close>

definition setStorageSize ::
  "env \<Rightarrow> string \<Rightarrow> Driver \<Rightarrow> Driver \<Rightarrow> op list \<Rightarrow> unit result \<times> Driver \<times> op list" where
  "setStorageSize env dir driver d tr =
     (if size_opt (options driver) = 0 then (Err InvalidStorageSize, d, tr)
      else if 0 < minSpace (options d) \<and> size_opt (options driver) < minSpace (options d)
        then (Err (StorageSizeTooSmall (minSpace (options d))), d, tr)
      else case enableQuota env d tr of
        (Ok _, d1, tr1) \<Rightarrow>
          (case subvolLimitQgroup env dir (size_opt (options driver)) tr1 of
             (r, tr2) \<Rightarrow> (r, d1, tr2))
      | (r, d1, tr1) \<Rightarrow> (r, d1, tr1))"

text \<open>
  Create (lines 572-634) in its three blocks. \<open>Create_subvolume\<close> is lines 573-596: the
  subvolumes directory, then a fresh subvolume or a snapshot of the parent.
\<close>

definition Create_subvolume ::
  "env \<Rightarrow> string \<Rightarrow> string \<Rightarrow> Driver \<Rightarrow> op list \<Rightarrow> unit result \<times> op list" where
  "Create_subvolume env id' parent d tr =
     (let subvolumes = path_Join env (home d) ''subvolumes'';
          (uid, gid) = idMap d;
          tr1 = tr @ [MkdirAllAndChown subvolumes 456 (os_Getuid env) gid]
      in case mkdirall_r env (length tr) subvolumes of
        Some err \<Rightarrow> (Err err, tr1)
      | None \<Rightarrow>
          if parent = [] then subvolCreate env subvolumes id' tr1
          else
            let parentDir = subvolumesDirID env d parent;
                tr2 = tr1 @ [OsStat parentDir]
            in case stat_r env (length tr1) parentDir of
              Inl err \<Rightarrow> (Err err, tr2)
            | Inr st_IsDir \<Rightarrow>
                if \<not> st_IsDir then (Err (NotADirectory parentDir), tr2)
                else subvolSnapshot env parentDir subvolumes id' tr2)"

text \<open>\<open>Create_quota\<close> is lines 598-618: the per-layer size option.\<close>

definition Create_quota ::
  "env \<Rightarrow> string \<Rightarrow> CreateOpts option \<Rightarrow> Driver \<Rightarrow> op list \<Rightarrow> unit result \<times> Driver \<times> op list" where
  "Create_quota env id' opts d tr =
     (let quotas = path_Join env (home d) ''quotas'';
          subvolumes = path_Join env (home d) ''subvolumes'';
          storageOpt = (case opts of None \<Rightarrow> [] | Some copts \<Rightarrow> StorageOpt copts)
      in if ''size'' \<in> set (map fst storageOpt) then
           (case parseStorageOpt env storageOpt Driver_zero of
              (Some err, driver) \<Rightarrow> (Err err, d, tr)
            | (None, driver) \<Rightarrow>
                (case setStorageSize env (path_Join env subvolumes id') driver d tr of
                   (Ok _, d1, tr1) \<Rightarrow>
                     (let tr2 = tr1 @ [MkdirAllAndChown quotas 448 (os_Getuid env) (os_Getegid env)]
                      in case mkdirall_r env (length tr1) quotas of
                        Some err \<Rightarrow> (Err err, d1, tr2)
                      | None \<Rightarrow>
                          let data = fmt_Sprint (size_opt (options driver));
                              tr3 = tr2 @ [OsWriteFile (path_Join env quotas id') data 420]
                          in case writefile_r env (length tr2) (path_Join env quotas id') of
                            Some err \<Rightarrow> (Err err, d1, tr3)
                          | None \<Rightarrow> (Ok (), d1, tr3))
                 | (r, d1, tr1) \<Rightarrow> (r, d1, tr1)))
         else (Ok (), d, tr))"

text \<open>\<open>Create_finish\<close> is lines 620-633: ownership and the security label.\<close>

definition Create_finish ::
  "env \<Rightarrow> string \<Rightarrow> CreateOpts option \<Rightarrow> Driver \<Rightarrow> op list \<Rightarrow> unit result \<times> op list" where
  "Create_finish env id' opts d tr =
     (let subvolumes = path_Join env (home d) ''subvolumes'';
          (uid, gid) = idMap d;
          (failed, tr1) =
            (if uid \<noteq> 0 \<or> gid \<noteq> 0
             then (chown_r env (length tr) (path_Join env subvolumes id'),
                   tr @ [OsChown (path_Join env subvolumes id') uid gid])
             else (None, tr))
      in case failed of
        Some err \<Rightarrow> (Err err, tr1)
      | None \<Rightarrow>
          let mountLabel = (case opts of None \<Rightarrow> [] | Some copts \<Rightarrow> MountLabel copts);
              tr2 = tr1 @ [Relabel (path_Join env subvolumes id') mountLabel False]
          in case relabel_r env (length tr1) (path_Join env subvolumes id') of
            Some err \<Rightarrow> (Err err, tr2)
          | None \<Rightarrow> (Ok (), tr2))"

definition Create ::
  "env \<Rightarrow> string \<Rightarrow> string \<Rightarrow> CreateOpts option \<Rightarrow> Driver \<Rightarrow> op list
    \<Rightarrow> unit result \<times> Driver \<times> op list" where
  "Create env id' parent opts d tr =
     (case Create_subvolume env id' parent d tr of
        (Ok _, tr1) \<Rightarrow>
          (case Create_quota env id' opts d tr1 of
             (Ok _, d1, tr2) \<Rightarrow>
               (case Create_finish env id' opts d1 tr2 of (r, tr3) \<Rightarrow> (r, d1, tr3))
           | (r, d1, tr2) \<Rightarrow> (r, d1, tr2))
      | (r, tr1) \<Rightarrow> (r, d, tr1))"

text \<open>Get (lines 709-732).\<close>

definition Get ::
  "env \<Rightarrow> string \<Rightarrow> string \<Rightarrow> Driver \<Rightarrow> op list \<Rightarrow> string result \<times> Driver \<times> op list" where
  "Get env id' mountLabel d tr =
     (let dir = subvolumesDirID env d id';
          tr1 = tr @ [OsStat dir]
      in case stat_r env (length tr) dir of
        Inl err \<Rightarrow> (Err err, d, tr1)
      | Inr st_IsDir \<Rightarrow>
          if \<not> st_IsDir then (Err (NotADirectory dir), d, tr1)
          else
            let tr2 = tr1 @ [OsReadFile (quotasDirID env d id')]
            in case readfile_r env (length tr1) (quotasDirID env d id') of
              Inl err \<Rightarrow> (Ok dir, d, tr2)
            | Inr quota \<Rightarrow>
                (case ParseUint quota of
                   Inl err \<Rightarrow> (Ok dir, d, tr2)
                 | Inr sz \<Rightarrow>
                     if minSpace (options d) \<le> sz then
                       (case enableQuota env d tr2 of
                          (Ok _, d1, tr3) \<Rightarrow>
                            (case subvolLimitQgroup env dir sz tr3 of
                               (Ok _, tr4) \<Rightarrow> (Ok dir, d1, tr4)
                             | (Err err, tr4) \<Rightarrow> (Err err, d1, tr4)
                             | (Panic p, tr4) \<Rightarrow> (Panic p, d1, tr4))
                        | (Err err, d1, tr3) \<Rightarrow> (Err err, d1, tr3)
                        | (Panic p, d1, tr3) \<Rightarrow> (Panic p, d1, tr3))
                     else (Ok dir, d, tr2)))"

section \<open>Sequences of operations on one Driver\<close>

datatype call =
    CallUpdateQuotaStatus
  | CallEnableQuota
  | CallCreate string string "CreateOpts option"
  | CallRemove string
  | CallGet string string

fun step :: "env \<Rightarrow> Driver \<times> op list \<Rightarrow> call \<Rightarrow> Driver \<times> op list" where
  "step env (d, tr) CallUpdateQuotaStatus = updateQuotaStatus env d tr"
| "step env (d, tr) CallEnableQuota = snd (enableQuota env d tr)"
| "step env (d, tr) (CallCreate id' parent opts) = snd (Create env id' parent opts d tr)"
| "step env (d, tr) (CallRemove id') = snd (Remove env id' d tr)"
| "step env (d, tr) (CallGet id' mountLabel) = snd (Get env id' mountLabel d tr)"

definition run :: "env \<Rightarrow> call list \<Rightarrow> Driver \<times> op list \<Rightarrow> Driver \<times> op list" where
  "run env calls s = foldl (step env) s calls"

text \<open>
  What a Driver knows about quota: nothing before the sync.Once has run, afterwards the
  value of the flag.
\<close>

datatype qstate = Unknown | ProbedFalse | ProbedTrue

definition quota_state :: "Driver \<Rightarrow> qstate" where
  "quota_state d = (if \<not> once d then Unknown else if quotaEnabled d then ProbedTrue else ProbedFalse)"

fun qrank :: "qstate \<Rightarrow> nat" where
  "qrank Unknown = 0"
| "qrank ProbedFalse = 1"
| "qrank ProbedTrue = 2"

text \<open>Observations on a trace: the status probes (the tree search of qgroupStatus), the
  writes of a file, the fallback cleanups, and the control operations that create a
  subvolume or a snapshot.\<close>

fun is_probe :: "op \<Rightarrow> bool" where
  "is_probe (Ioctl (TREE_SEARCH p)) = True"
| "is_probe _ = False"

definition probes :: "op list \<Rightarrow> nat" where
  "probes tr = length (filter is_probe tr)"

fun is_write :: "op \<Rightarrow> bool" where
  "is_write (OsWriteFile p c m) = True"
| "is_write _ = False"

fun is_cleanup :: "op \<Rightarrow> bool" where
  "is_cleanup (EnsureRemoveAll p) = True"
| "is_cleanup _ = False"

fun is_quota_op :: "op \<Rightarrow> bool" where
  "is_quota_op (Ioctl (QUOTA_CTL_ENABLE p)) = True"
| "is_quota_op (Ioctl (QGROUP_LIMIT p sz)) = True"
| "is_quota_op _ = False"

fun is_create_op :: "op \<Rightarrow> bool" where
  "is_create_op (Ioctl (SUBVOL_CREATE p n)) = True"
| "is_create_op (Ioctl (SNAP_CREATE_V2 p q n)) = True"
| "is_create_op _ = False"

text \<open>The operations a subvolDelete can issue.\<close>

fun delete_op :: "op \<Rightarrow> bool" where
  "delete_op (OpenDir p) = True"
| "delete_op (CloseDir p) = True"
| "delete_op (UnixLstat p) = True"
| "delete_op (FilepathWalkDir p) = True"
| "delete_op (LogErrorf e) = True"
| "delete_op (Ioctl (INO_LOOKUP p)) = True"
| "delete_op (Ioctl (QGROUP_CREATE p q)) = True"
| "delete_op (Ioctl (SNAP_DESTROY p n)) = True"
| "delete_op _ = False"

text \<open>
  The error taxonomy of the specification (section 7), in its words: InvalidArgument is a
  malformed or out-of-range option value, that is an unknown option key or a zero or
  sub-floor size.
\<close>

fun is_InvalidArgument :: "error \<Rightarrow> bool" where
  "is_InvalidArgument (UnknownOption k) = True"
| "is_InvalidArgument InvalidStorageSize = True"
| "is_InvalidArgument (StorageSizeTooSmall m) = True"
| "is_InvalidArgument _ = False"

section \<open>Concrete environments\<close>

text \<open>
  An environment in which every call succeeds: quota is found enabled by the probe, no
  quota record can be read, and the layer holds no nested entry. The header constants have
  their values in linux/btrfs.h and linux/btrfs_tree.h (BTRFS_PATH_NAME_MAX + 1 = 4088,
  BTRFS_SUBVOL_NAME_MAX = 4039, BTRFS_FIRST_FREE_OBJECTID = 256,
  BTRFS_QGROUP_STATUS_KEY = 240).
\<close>

definition env_ok :: env where
  "env_ok = \<lparr>
     path_Join = (\<lambda>a b. a @ ''/'' @ b),
     path_Dir = (\<lambda>p. rev (tl (dropWhile (\<lambda>c. c \<noteq> CHR ''/'') (rev p)))),
     strings_ToLower = (\<lambda>s. s),
     units_RAMInBytes = (\<lambda>s. if s = ''0'' then Inr 0 else if s = ''1k'' then Inr 1024
        else if s = ''1g'' then Inr 1073741824 else Inl (LibError ''invalid size'')),
     error_text = (\<lambda>e. case e of
        FailedDestroySnapshot p n e \<Rightarrow> (if e = EPERM then ''operation not permitted'' else ''errno'')
      | _ \<Rightarrow> ''error''),
     RunningInUserNS = False,
     os_Getuid = 0,
     os_Getegid = 0,
     vol_args_name_len = 4088,
     SUBVOL_NAME_MAX = 4039,
     FIRST_FREE_OBJECTID = 256,
     QGROUP_STATUS_KEY = 240,
     stat_r = (\<lambda>t p. Inr True),
     remove_r = (\<lambda>t p. None),
     readfile_r = (\<lambda>t p. Inl (OSError ENOENT)),
     writefile_r = (\<lambda>t p. None),
     mkdirall_r = (\<lambda>t p. None),
     chown_r = (\<lambda>t p. None),
     relabel_r = (\<lambda>t p. None),
     removeall_r = (\<lambda>t p. None),
     opendir_r = (\<lambda>t p. True),
     ioctl_r = (\<lambda>t r. 0),
     search_type_r = (\<lambda>t p. 240),
     delete_r = (\<lambda>t. DScript True [] (True, 0, 5) 0 0)
   \<rparr>"

text \<open>A fresh Driver on /b, as Init builds it, with no minimum space.\<close>

definition d0 :: Driver where
  "d0 = \<lparr>home = ''/b'', idMap = (0, 0), options = \<lparr>minSpace = 0, size_opt = 0\<rparr>,
     quotaEnabled = False, once = False\<rparr>"

text \<open>The subvolume directory of layer x is gone, its quota record is still there.\<close>

definition env_gone :: env where
  "env_gone = env_ok\<lparr>stat_r :=
     (\<lambda>t p. if p = ''/b/subvolumes/x'' then Inl (OSError ENOENT) else Inr False)\<rparr>"

text \<open>Everything succeeds but the quota rescan, which fails with EIO.\<close>

definition env_rescan_fails :: env where
  "env_rescan_fails = env_ok\<lparr>ioctl_r :=
     (\<lambda>t r. if r = QUOTA_RESCAN_WAIT ''/b'' then 5 else 0)\<rparr>"

text \<open>Quota is not enabled (the probe finds no status item) and destroying the subvolume
  fails with EPERM.\<close>

definition env_destroy_fails :: env where
  "env_destroy_fails = env_ok\<lparr>search_type_r := (\<lambda>t p. 0),
     delete_r := (\<lambda>t. DScript True [] (True, 0, 5) 0 EPERM)\<rparr>"

text \<open>Quota is enabled and destroying the subvolume fails with EPERM.\<close>

definition env_destroy_fails_quota :: env where
  "env_destroy_fails_quota = env_ok\<lparr>delete_r := (\<lambda>t. DScript True [] (True, 0, 5) 0 EPERM)\<rparr>"

text \<open>The probe finds quota disabled; enabling it succeeds.\<close>

definition env_probe_false :: env where
  "env_probe_false = env_ok\<lparr>search_type_r := (\<lambda>t p. 0)\<rparr>"

text \<open>The quota record of a layer holds the given bytes.\<close>

definition env_record :: "string \<Rightarrow> env" where
  "env_record quota = env_ok\<lparr>readfile_r := (\<lambda>t p. Inr quota)\<rparr>"

section \<open>The quota flag and the single-execution probe\<close>

lemma updateQuotaStatus_home [simp]: "home (fst (updateQuotaStatus env d tr)) = home d"
  by (simp add: updateQuotaStatus_def Let_def split: prod.splits result.splits)

lemma updateQuotaStatus_options [simp]: "options (fst (updateQuotaStatus env d tr)) = options d"
  by (simp add: updateQuotaStatus_def Let_def split: prod.splits result.splits)

lemma updateQuotaStatus_idMap [simp]: "idMap (fst (updateQuotaStatus env d tr)) = idMap d"
  by (simp add: updateQuotaStatus_def Let_def split: prod.splits result.splits)

lemma updateQuotaStatus_once [simp]: "once (fst (updateQuotaStatus env d tr))"
  by (simp add: updateQuotaStatus_def Let_def split: prod.splits result.splits)

lemma updateQuotaStatus_known: "once d \<Longrightarrow> updateQuotaStatus env d tr = (d, tr)"
  by (simp add: updateQuotaStatus_def)

lemma updateQuotaStatus_mono:
  "quotaEnabled d \<Longrightarrow> quotaEnabled (fst (updateQuotaStatus env d tr))"
  by (simp add: updateQuotaStatus_def Let_def split: prod.splits result.splits)

section \<open>Paths of the concrete environments\<close>

lemma paths_ok [simp]:
  "subvolumesDirID env_ok d0 ''x'' = ''/b/subvolumes/x''"
  "quotasDirID env_ok d0 ''x'' = ''/b/quotas/x''"
  "subvolumesDir env_ok d0 = ''/b/subvolumes''"
  by (simp_all add: subvolumesDirID_def subvolumesDir_def quotasDirID_def quotasDir_def
      env_ok_def d0_def)

section \<open>Remove on a layer whose subvolume directory is gone\<close>

text \<open>
  C1 (as amended). For every id whose subvolume directory home/subvolumes/<id> cannot be
  stat'ed, Remove(id) returns the error of that stat at once: the only operation it issues
  is the stat, so a quota record file home/quotas/<id> that still exists is left in place,
  and the Driver is unchanged.
\<close>

theorem Remove_missing_subvolume:
  assumes "stat_r env (length tr) (subvolumesDirID env d id') = Inl err"
  shows "Remove env id' d tr = (Err err, d, tr @ [OsStat (subvolumesDirID env d id')])"
  using assms by (simp add: Remove_def Let_def)

theorem Remove_missing_subvolume_witness:
  "stat_r env_gone (length ([] :: op list)) (subvolumesDirID env_gone d0 ''x'') = Inl (OSError ENOENT)
   \<and> Remove env_gone ''x'' d0 [] =
       (Err (OSError ENOENT), d0, [] @ [OsStat (subvolumesDirID env_gone d0 ''x'')])"
proof -
  have h: "stat_r env_gone (length ([] :: op list)) (subvolumesDirID env_gone d0 ''x'')
      = Inl (OSError ENOENT)"
    by (simp add: env_gone_def subvolumesDirID_def subvolumesDir_def env_ok_def d0_def)
  show ?thesis using h Remove_missing_subvolume [OF h] by simp
qed

text \<open>
  C1 as stated fails: with the subvolume directory of layer x gone (stat answers ENOENT) and
  its quota record still there (stat answers a file), Remove returns the ENOENT error and
  never removes the quota record.
\<close>

theorem Remove_partial_state_counterexample:
  "stat_r env_gone 0 (subvolumesDirID env_gone d0 ''x'') = Inl (OSError ENOENT)
   \<and> stat_r env_gone 1 (quotasDirID env_gone d0 ''x'') = Inr False
   \<and> fst (Remove env_gone ''x'' d0 []) = Err (OSError ENOENT)
   \<and> OsRemove (quotasDirID env_gone d0 ''x'') \<notin> set (snd (snd (Remove env_gone ''x'' d0 [])))"
  by (simp add: Remove_def Let_def env_gone_def subvolumesDirID_def subvolumesDir_def
      quotasDirID_def quotasDir_def env_ok_def d0_def)

section \<open>The operations of the recursive delete\<close>

lemma delete_qgroup_ops: "list_all delete_op (delete_qgroup lk qe dp fp)"
  by (auto simp: delete_qgroup_def subvolLookupQgroup_def split: prod.splits result.splits if_splits)

lemma isSubvolume_ops: "list_all delete_op (snd (isSubvolume env l p))"
  by (simp add: isSubvolume_def split: sum.splits)

lemma subvolDelete_ops:
  "list_all delete_op (snd (subvolDelete env ds dirpath name q))"
  "list_all delete_op (snd (WalkDir env evs dirpath fullPath q))"
  "list_all delete_op (snd (walkSubVolumes env ev dirpath fullPath q))"
proof (induction env ds dirpath name q and env evs dirpath fullPath q and env ev dirpath fullPath q
    rule: subvolDelete_WalkDir_walkSubVolumes.induct)
  case (1 env ok evs lk qerrno derrno dirpath name q)
  show ?case
  proof (cases ok)
    case False
    then show ?thesis by simp
  next
    case True
    obtain r ops where w: "WalkDir env evs dirpath (path_Join env dirpath name) q = (r, ops)"
      by fastforce
    have o: "list_all delete_op ops"
      using "1.IH" [OF _ refl] True w by simp
    have qo: "list_all delete_op (if q then delete_qgroup lk qerrno dirpath (path_Join env dirpath name) else [])"
      by (simp add: delete_qgroup_ops)
    show ?thesis
    proof (cases r)
      case (Ok u)
      then show ?thesis using True w o qo
        by (cases "copy_name name 0 (zeroed (vol_args_name_len env))") (simp_all add: Let_def)
    next
      case (Err e)
      then show ?thesis using True w o by (simp add: Let_def)
    next
      case (Panic x)
      then show ?thesis using True w o by (simp add: Let_def)
    qed
  qed
next
  case (2 env dirpath fullPath q)
  then show ?case by simp
next
  case (3 env ev evs dirpath fullPath q)
  obtain r ops where c: "walkSubVolumes env ev dirpath fullPath q = (r, ops)" by fastforce
  have o: "list_all delete_op ops" using "3.IH"(1) c by simp
  show ?case
  proof (cases r)
    case (Ok u)
    obtain r' ops' where w: "WalkDir env evs dirpath fullPath q = (r', ops')" by fastforce
    have "list_all delete_op ops'" using "3.IH"(2) [OF c [symmetric] Ok] w by simp
    then show ?thesis using c Ok w o by simp
  next
    case (Err e)
    then show ?thesis using c o by simp
  next
    case (Panic x)
    then show ?thesis using c o by simp
  qed
next
  case (4 env p f err lstat child dirpath fullPath q)
  show ?case
  proof (cases err)
    case (Some e)
    then show ?thesis by simp
  next
    case None
    note eN = None
    show ?thesis
    proof (cases f)
      case None
      then show ?thesis using eN by simp
    next
      case (Some d)
      show ?thesis
      proof (cases "IsDir d \<and> p \<noteq> fullPath")
        case False
        then show ?thesis using eN Some by auto
      next
        case True
        obtain r ops where iv: "isSubvolume env lstat p = (r, ops)" by fastforce
        have o: "list_all delete_op ops" using isSubvolume_ops [of env lstat p] iv by simp
        show ?thesis
        proof (cases r)
          case (Ok sv)
          show ?thesis
          proof (cases sv)
            case True
            note svT = True
            have ih: "list_all delete_op (snd (subvolDelete env child (path_Dir env p) (Name d) q))"
              using "4.IH" [OF eN Some \<open>IsDir d \<and> p \<noteq> fullPath\<close> iv [symmetric] Ok] svT by simp
            then show ?thesis
              using eN Some \<open>IsDir d \<and> p \<noteq> fullPath\<close> iv Ok svT o
              by (auto split: prod.splits result.splits)
          next
            case False
            then show ?thesis using eN Some \<open>IsDir d \<and> p \<noteq> fullPath\<close> iv Ok o by simp
          qed
        next
          case (Err e)
          then show ?thesis using eN Some True iv o by simp
        next
          case (Panic x)
          then show ?thesis using eN Some True iv o by simp
        qed
      qed
    qed
  qed
qed

section \<open>Remove: the stages before the quota rescan\<close>

lemma updateQuotaStatus_trace:
  "\<exists>ops. snd (updateQuotaStatus env d tr) = tr @ ops
     \<and> set ops \<subseteq> {OpenDir (home d), Ioctl (TREE_SEARCH (home d)), CloseDir (home d)}"
  by (auto simp: updateQuotaStatus_def qgroupStatus_def openDir_def Let_def
      split: prod.splits result.splits)

lemma subvolRescanQuota_trace:
  "\<exists>ops. snd (snd (subvolRescanQuota env d tr)) = tr @ ops"
proof -
  obtain d1 tr1 where u: "updateQuotaStatus env d tr = (d1, tr1)" by fastforce
  obtain ops where "tr1 = tr @ ops" using updateQuotaStatus_trace [of env d tr] u by auto
  then show ?thesis using u
    by (auto simp: subvolRescanQuota_def openDir_def Let_def)
qed

lemma subvolRescanQuota_fails:
  assumes "once d" "quotaEnabled d" "opendir_r env (length tr) (home d)"
    and "ioctl_r env (Suc (length tr)) (QUOTA_RESCAN_WAIT (home d)) = e" "e \<noteq> 0"
  shows "fst (subvolRescanQuota env d tr) = Err (FailedRescanQuota e)"
  using assms by (simp add: subvolRescanQuota_def updateQuotaStatus_known openDir_def Let_def)

lemma Remove_cleanup_trace:
  "\<exists>ops. snd (snd (Remove_cleanup env dir d tr)) = tr @ EnsureRemoveAll dir # ops"
proof (cases "removeall_r env (length tr) dir")
  case None
  then show ?thesis
    using subvolRescanQuota_trace [of env d "tr @ [EnsureRemoveAll dir]"]
    by (auto simp: Remove_cleanup_def)
next
  case (Some a)
  then show ?thesis by (simp add: Remove_cleanup_def)
qed

text \<open>The first stage of Remove when both stats and the removal of the quota record pass.\<close>

lemma Remove_first_stage:
  assumes dir: "\<And>t. stat_r env t (subvolumesDirID env d id') = Inr isdir"
    and sq: "\<And>t. stat_r env t (quotasDirID env d id') = sq"
    and rq: "\<And>t. remove_r env t (quotasDirID env d id') = rq"
    and pass: "case sq of Inr b \<Rightarrow> rq = None | Inl e \<Rightarrow> os_IsNotExist e"
  shows "\<exists>ops. Remove env id' d tr = Remove_subvolume env id' d (tr @ ops)
           \<and> \<not> list_ex is_cleanup ops"
proof (cases sq)
  case (Inl e)
  then have "Remove env id' d tr = Remove_subvolume env id' d
      (tr @ [OsStat (subvolumesDirID env d id'), OsStat (quotasDirID env d id')])"
    using dir sq pass by (simp add: Remove_def Let_def)
  then show ?thesis by (intro exI [of _ "[OsStat (subvolumesDirID env d id'), OsStat (quotasDirID env d id')]"]) simp
next
  case (Inr b)
  then have "Remove env id' d tr = Remove_subvolume env id' d
      (tr @ [OsStat (subvolumesDirID env d id'), OsStat (quotasDirID env d id'),
             OsRemove (quotasDirID env d id')])"
    using dir sq rq pass by (simp add: Remove_def Let_def)
  then show ?thesis by (intro exI [of _ "[OsStat (subvolumesDirID env d id'), OsStat (quotasDirID env d id'),
             OsRemove (quotasDirID env d id')]"]) simp
qed

lemma subvolumesDir_update [simp]:
  "subvolumesDir env (fst (updateQuotaStatus env d tr)) = subvolumesDir env d"
  by (simp add: subvolumesDir_def)

lemma delete_op_not_cleanup: "list_all delete_op ops \<Longrightarrow> \<not> list_ex is_cleanup ops"
proof (induction ops)
  case Nil
  then show ?case by simp
next
  case (Cons a ops)
  then show ?case by (cases a) auto
qed

text \<open>Remove_subvolume, by the outcome of the recursive delete.\<close>

lemma Remove_subvolume_cases:
  assumes u: "updateQuotaStatus env d tr = (d1, tr4)"
    and del: "subvolDelete env (delete_r env (length tr4)) (subvolumesDir env d) id' (quotaEnabled d1) = (r, ops)"
  shows "Remove_subvolume env id' d tr =
     (case r of
        Panic p \<Rightarrow> (Panic p, d1, tr4 @ ops)
      | Err err \<Rightarrow>
          if quotaEnabled d1 then
            (Err (if RunningInUserNS env \<and> strings_Contains (error_text env err) ''operation not permitted''
                  then SubvolRmHint err else err), d1, tr4 @ ops)
          else Remove_cleanup env (subvolumesDirID env d id') d1 (tr4 @ ops)
      | Ok _ \<Rightarrow> Remove_cleanup env (subvolumesDirID env d id') d1 (tr4 @ ops))"
proof -
  have "subvolumesDir env d1 = subvolumesDir env d"
    using subvolumesDir_update [of env d tr] u by simp
  then show ?thesis using u del
    by (simp add: Remove_subvolume_def Let_def split: result.splits)
qed


lemma length_zeroed [simp]: "length (zeroed n) = n"
  by (simp add: zeroed_def)

section \<open>Remove and the post-delete quota rescan\<close>

text \<open>
  C2 (as amended). For every id on which the stat of the subvolume directory, the quota
  record removal, the recursive subvolume delete and the residue cleanup all succeed,
  Remove(id) returns exactly what the rescan step (subvolRescanQuota, run after the
  cleanup) returns; so when quota is enabled and the rescan-and-wait operation fails with
  errno e, Remove returns the rescan error although the layer has been removed.
\<close>

theorem Remove_returns_rescan_outcome:
  assumes dir: "\<And>t. stat_r env t (subvolumesDirID env d id') = Inr isdir"
    and sq: "\<And>t. stat_r env t (quotasDirID env d id') = sq"
    and rq: "\<And>t. remove_r env t (quotasDirID env d id') = rq"
    and pass: "case sq of Inr b \<Rightarrow> rq = None | Inl e \<Rightarrow> os_IsNotExist e"
    and del: "\<And>t q. fst (subvolDelete env (delete_r env t) (subvolumesDir env d) id' q) = Ok ()"
    and rm: "\<And>t. removeall_r env t (subvolumesDirID env d id') = None"
  shows "(\<exists>d' tr'. Remove env id' d tr =
            subvolRescanQuota env d' (tr' @ [EnsureRemoveAll (subvolumesDirID env d id')]))
     \<and> ((\<forall>t. opendir_r env t (home d)) \<and> (\<forall>t. ioctl_r env t (QUOTA_RESCAN_WAIT (home d)) = e)
          \<and> e \<noteq> 0 \<and> (\<forall>tr'. quotaEnabled (fst (updateQuotaStatus env d tr')))
        \<longrightarrow> fst (Remove env id' d tr) = Err (FailedRescanQuota e))"
proof -
  let ?dir = "subvolumesDirID env d id'"
  obtain ops0 where s1: "Remove env id' d tr = Remove_subvolume env id' d (tr @ ops0)"
    using Remove_first_stage [OF dir sq rq pass] by blast
  obtain d1 tr4 where u: "updateQuotaStatus env d (tr @ ops0) = (d1, tr4)" by fastforce
  obtain r ops where dl: "subvolDelete env (delete_r env (length tr4)) (subvolumesDir env d) id'
      (quotaEnabled d1) = (r, ops)" by fastforce
  have r: "r = Ok ()" using del [of "length tr4" "quotaEnabled d1"] dl by simp
  have R: "Remove env id' d tr = subvolRescanQuota env d1 ((tr4 @ ops) @ [EnsureRemoveAll ?dir])"
    using s1 Remove_subvolume_cases [OF u dl] r rm by (simp add: Remove_cleanup_def)
  have o1: "once d1" using updateQuotaStatus_once [of env d "tr @ ops0"] u by simp
  have h1: "home d1 = home d" using updateQuotaStatus_home [of env d "tr @ ops0"] u by simp
  have q1: "quotaEnabled d1" if "\<forall>tr'. quotaEnabled (fst (updateQuotaStatus env d tr'))"
    using that [rule_format, of "tr @ ops0"] u by simp
  have fails: "fst (Remove env id' d tr) = Err (FailedRescanQuota e)"
    if "\<forall>t. opendir_r env t (home d)" "\<forall>t. ioctl_r env t (QUOTA_RESCAN_WAIT (home d)) = e"
      "e \<noteq> 0" "\<forall>tr'. quotaEnabled (fst (updateQuotaStatus env d tr'))"
    unfolding R
    by (rule subvolRescanQuota_fails) (use that o1 h1 q1 in simp_all)
  show ?thesis using R fails by blast
qed

lemma env_rescan_fails_paths [simp]:
  "subvolumesDirID env_rescan_fails d0 ''x'' = ''/b/subvolumes/x''"
  "quotasDirID env_rescan_fails d0 ''x'' = ''/b/quotas/x''"
  "subvolumesDir env_rescan_fails d0 = ''/b/subvolumes''"
  by (simp_all add: subvolumesDirID_def subvolumesDir_def quotasDirID_def quotasDir_def
      env_rescan_fails_def env_ok_def d0_def)

lemma copy_name_x [simp]: "copy_name ''x'' 0 (zeroed 4088) = Ok ((zeroed 4088)[0 := CHR ''x''])"
  by simp

lemma delete_x_ok:
  "fst (subvolDelete env_rescan_fails (delete_r env_rescan_fails t)
     (subvolumesDir env_rescan_fails d0) ''x'' q) = Ok ()"
  by (simp add: env_rescan_fails_def env_ok_def Let_def subvolumesDir_def d0_def)

theorem Remove_returns_rescan_outcome_witness:
  "(\<forall>t. stat_r env_rescan_fails t (subvolumesDirID env_rescan_fails d0 ''x'') = Inr True)
   \<and> (\<forall>t. stat_r env_rescan_fails t (quotasDirID env_rescan_fails d0 ''x'') = Inr True)
   \<and> (\<forall>t. remove_r env_rescan_fails t (quotasDirID env_rescan_fails d0 ''x'') = None)
   \<and> (\<forall>t q. fst (subvolDelete env_rescan_fails (delete_r env_rescan_fails t)
          (subvolumesDir env_rescan_fails d0) ''x'' q) = Ok ())
   \<and> (\<forall>t. removeall_r env_rescan_fails t (subvolumesDirID env_rescan_fails d0 ''x'') = None)
   \<and> (\<forall>t. opendir_r env_rescan_fails t (home d0))
   \<and> (\<forall>t. ioctl_r env_rescan_fails t (QUOTA_RESCAN_WAIT (home d0)) = 5)
   \<and> (\<forall>tr'. quotaEnabled (fst (updateQuotaStatus env_rescan_fails d0 tr')))
   \<and> fst (Remove env_rescan_fails ''x'' d0 []) = Err (FailedRescanQuota 5)"
proof -
  have h1: "\<And>t. stat_r env_rescan_fails t (subvolumesDirID env_rescan_fails d0 ''x'') = Inr True"
    by (simp add: env_rescan_fails_def env_ok_def)
  have h2: "\<And>t. stat_r env_rescan_fails t (quotasDirID env_rescan_fails d0 ''x'') = Inr True"
    by (simp add: env_rescan_fails_def env_ok_def)
  have h3: "\<And>t. remove_r env_rescan_fails t (quotasDirID env_rescan_fails d0 ''x'') = None"
    by (simp add: env_rescan_fails_def env_ok_def)
  have h4: "case (Inr True :: error + bool) of Inr b \<Rightarrow> (None :: error option) = None
      | Inl e \<Rightarrow> os_IsNotExist e" by simp
  have h5: "\<And>t q. fst (subvolDelete env_rescan_fails (delete_r env_rescan_fails t)
          (subvolumesDir env_rescan_fails d0) ''x'' q) = Ok ()"
    by (rule delete_x_ok)
  have h6: "\<And>t. removeall_r env_rescan_fails t (subvolumesDirID env_rescan_fails d0 ''x'') = None"
    by (simp add: env_rescan_fails_def env_ok_def)
  have h7: "\<forall>t. opendir_r env_rescan_fails t (home d0)"
    by (simp add: env_rescan_fails_def env_ok_def)
  have h8: "\<forall>t. ioctl_r env_rescan_fails t (QUOTA_RESCAN_WAIT (home d0)) = 5"
    by (simp add: env_rescan_fails_def env_ok_def d0_def)
  have h9: "\<forall>tr'. quotaEnabled (fst (updateQuotaStatus env_rescan_fails d0 tr'))"
    by (simp add: updateQuotaStatus_def qgroupStatus_def openDir_def Let_def
        env_rescan_fails_def env_ok_def d0_def)
  have "fst (Remove env_rescan_fails ''x'' d0 []) = Err (FailedRescanQuota 5)"
    using Remove_returns_rescan_outcome [OF h1 h2 h3 h4 h5 h6, where e = 5 and tr = "[]"] h7 h8 h9 by simp
  then show ?thesis using h1 h2 h3 h5 h6 h7 h8 h9 by simp
qed

text \<open>
  C2 as stated fails: the quota record is removed, the subvolume is destroyed and the
  residue is cleaned up, the rescan fails with errno 5, and Remove returns that error.
\<close>

theorem Remove_rescan_failure_counterexample:
  "fst (Remove env_rescan_fails ''x'' d0 []) = Err (FailedRescanQuota 5)
   \<and> OsRemove ''/b/quotas/x'' \<in> set (snd (snd (Remove env_rescan_fails ''x'' d0 [])))
   \<and> fst (subvolDelete env_rescan_fails (delete_r env_rescan_fails 6)
        (subvolumesDir env_rescan_fails d0) ''x'' True) = Ok ()
   \<and> EnsureRemoveAll ''/b/subvolumes/x'' \<in> set (snd (snd (Remove env_rescan_fails ''x'' d0 [])))
   \<and> Ioctl (QUOTA_RESCAN_WAIT ''/b'') \<in> set (snd (snd (Remove env_rescan_fails ''x'' d0 [])))"
  by (simp add: Remove_def Remove_subvolume_def Remove_cleanup_def subvolRescanQuota_def
      updateQuotaStatus_def qgroupStatus_def openDir_def delete_qgroup_def subvolLookupQgroup_def
      Let_def env_rescan_fails_def env_ok_def d0_def
      subvolumesDirID_def subvolumesDir_def quotasDirID_def quotasDir_def)

end
